theory Spec2Isabelle
  imports Main "HOL-Library.Sublist"
begin

text \<open>
  A model of \<^verbatim>\<open>viewer/build_viewer.py\<close>: the inline formatter and the block renderer
  in their two implementations (the Python functions \<^verbatim>\<open>inline_format\<close> and
  \<^verbatim>\<open>md_to_html\<close>, and the functions \<^verbatim>\<open>inlineFmt\<close> and \<^verbatim>\<open>mdToHtml\<close> of the
  script embedded in the generated page), the state document with its load and save, the
  page that \<^verbatim>\<open>build_html\<close> produces, the \<^verbatim>\<open>applyUpdate\<close> procedure of the embedded
  script, and \<^verbatim>\<open>main\<close>.

  Strings are lists of characters with the code points 0 to 255; a character of the source
  text outside that range has no counterpart here.
\<close>

section \<open>Regular expressions\<close>

text \<open>
  Both implementations do their work with regular expressions, Python's \<^verbatim>\<open>re\<close> and
  the regular expressions of the script language. The expressions of this program are
  sequences of literal characters, repeated character classes (greedy, or lazy in the
  bold pattern), capture groups and one optional group; they have no alternation. Both
  engines match such an expression by backtracking, trying for each repetition the longest
  run first (the shortest first when lazy) and for the optional group its presence first.

  \<^item> \<open>Lit c\<close> is the character \<open>c\<close>;
  \<^item> \<open>Rep greedy lo hi P\<close> is between \<open>lo\<close> and \<open>hi\<close> characters of the class \<open>P\<close>
    (no upper bound when \<open>hi\<close> is \<open>None\<close>);
  \<^item> \<open>Open n\<close> and \<open>Close n\<close> are the parentheses of capture group \<open>n\<close>;
  \<^item> \<open>Opt q\<close> is the optional non-capturing group \<^verbatim>\<open>(?:q)?\<close>;
  \<^item> \<open>Eos nl\<close> is \<^verbatim>\<open>$\<close>: the end of the string, and with \<open>nl\<close> (Python) also the
    position before a final line feed.
\<close>

datatype rx =
    Lit char
  | Rep bool nat "nat option" "char \<Rightarrow> bool"
  | Open nat
  | Close nat
  | Opt "rx list"
  | Eos bool

text \<open>
  The matcher's state: where each open group started (the input that was left at that
  point) and what each closed group captured. A group that took no part in the match has
  no capture (Python's \<^verbatim>\<open>None\<close>).
\<close>

record mstate =
  opens :: "nat \<Rightarrow> string"
  caps :: "nat \<Rightarrow> string option"

definition m0 :: mstate where
  "m0 = \<lparr>opens = (\<lambda>_. []), caps = (\<lambda>_. None)\<rparr>"

text \<open>
  \<open>rmatch p s m\<close> matches the expression \<open>p\<close> at the start of \<open>s\<close>, as
  \<^verbatim>\<open>re.match\<close> does; the result is the final state and the input left after the match,
  or \<open>None\<close> when \<open>p\<close> does not match there. The rest of the expression is the
  continuation of each choice, so a later failure returns to the last choice made.
\<close>

fun rx_size :: "rx \<Rightarrow> nat" where
  "rx_size (Opt q) = Suc (sum_list (map rx_size q))"
| "rx_size _ = 1"

function (sequential) rmatch :: "rx list \<Rightarrow> string \<Rightarrow> mstate \<Rightarrow> (mstate \<times> string) option" where
  "rmatch [] s m = Some (m, s)"
| "rmatch (Lit c # p) [] m = None"
| "rmatch (Lit c # p) (x # xs) m = (if x = c then rmatch p xs m else None)"
| "rmatch (Eos nl # p) s m =
     (if s = [] \<or> (nl \<and> s = [CHR 0x0A]) then rmatch p s m else None)"
| "rmatch (Open n # p) s m = rmatch p s (m\<lparr>opens := (opens m)(n := s)\<rparr>)"
| "rmatch (Close n # p) s m =
     rmatch p s (m\<lparr>caps := (caps m)(n \<mapsto> take (length (opens m n) - length s) (opens m n))\<rparr>)"
| "rmatch (Opt q # p) s m =
     (case rmatch (q @ p) s m of Some r \<Rightarrow> Some r | None \<Rightarrow> rmatch p s m)"
| "rmatch (Rep g lo hi P # p) [] m = (if lo = 0 then rmatch p [] m else None)"
| "rmatch (Rep True lo hi P # p) (x # xs) m =
     (case (if P x \<and> hi \<noteq> Some 0
            then rmatch (Rep True (lo - 1) (map_option (\<lambda>h. h - 1) hi) P # p) xs m
            else None) of
        Some r \<Rightarrow> Some r
      | None \<Rightarrow> if lo = 0 then rmatch p (x # xs) m else None)"
| "rmatch (Rep False lo hi P # p) (x # xs) m =
     (case (if lo = 0 then rmatch p (x # xs) m else None) of
        Some r \<Rightarrow> Some r
      | None \<Rightarrow> if P x \<and> hi \<noteq> Some 0
                then rmatch (Rep False (lo - 1) (map_option (\<lambda>h. h - 1) hi) P # p) xs m
                else None)"
  by pat_completeness auto
termination
  by (relation "measures [\<lambda>(p, s, m). sum_list (map rx_size p), \<lambda>(p, s, m). length s]") auto

section \<open>The character classes of the two engines\<close>

text \<open>
  The classes \<^verbatim>\<open>\s\<close> and \<^verbatim>\<open>.\<close> differ between the two engines. In Python,
  \<^verbatim>\<open>\s\<close> on a \<^verbatim>\<open>str\<close> is every character with \<^verbatim>\<open>str.isspace\<close>, which below 256
  is the twelve characters listed, and \<^verbatim>\<open>.\<close> is every character but the line feed. In
  the script language \<^verbatim>\<open>\s\<close> is white space and line terminators, which below 256 is
  the seven characters listed, and \<^verbatim>\<open>.\<close> excludes the line terminators, of which the
  line feed and the carriage return are below 256. \<^verbatim>\<open>\d\<close> is the ten digits in both
  (below 256). \<^verbatim>\<open>str.strip()\<close> and \<^verbatim>\<open>trim()\<close> remove the characters of the
  respective \<^verbatim>\<open>\s\<close>.
\<close>

definition py_space :: "char \<Rightarrow> bool" where
  "py_space c \<longleftrightarrow> c \<in> set [CHR 0x09, CHR 0x0A, CHR 0x0B, CHR 0x0C, CHR 0x0D,
                              CHR 0x1C, CHR 0x1D, CHR 0x1E, CHR 0x1F, CHR 0x20, CHR 0x85, CHR 0xA0]"

definition js_space :: "char \<Rightarrow> bool" where
  "js_space c \<longleftrightarrow> c \<in> set [CHR 0x09, CHR 0x0A, CHR 0x0B, CHR 0x0C, CHR 0x0D, CHR 0x20, CHR 0xA0]"

definition py_dot :: "char \<Rightarrow> bool" where
  "py_dot c \<longleftrightarrow> c \<noteq> CHR 0x0A"

definition js_dot :: "char \<Rightarrow> bool" where
  "js_dot c \<longleftrightarrow> c \<notin> set [CHR 0x0A, CHR 0x0D]"

definition is_digit :: "char \<Rightarrow> bool" where
  "is_digit c \<longleftrightarrow> c \<in> set ''0123456789''"

definition one_of :: "string \<Rightarrow> char \<Rightarrow> bool" where
  "one_of cs c \<longleftrightarrow> c \<in> set cs"

definition none_of :: "string \<Rightarrow> char \<Rightarrow> bool" where
  "none_of cs c \<longleftrightarrow> c \<notin> set cs"

text \<open>
  The expressions of the source, in the order in which they appear there. Those that use
  \<^verbatim>\<open>\s\<close>, \<^verbatim>\<open>.\<close> or \<^verbatim>\<open>$\<close> take the class or the flag of the engine that runs them.
  \<^verbatim>\<open>^\<close> at the start of an expression is the start of the match.

  \<^item> \<open>citation_rx\<close>: \<^verbatim>\<open>\[Source:\s*"([^"]+)"(?:,\s*([^]]*))?\]\(([^)]+)\)\<close>
  \<^item> \<open>unsourced_rx\<close>: \<^verbatim>\<open>\[Unsourced\s*--\s*([^\]]+)\]\<close>
  \<^item> \<open>link_rx\<close>: \<^verbatim>\<open>\[([^\]]+)\]\(([^)]+)\)\<close>
  \<^item> \<open>bold_rx\<close>: \<^verbatim>\<open>\*\*(.+?)\*\*\<close>
  \<^item> \<open>code_rx\<close>: a backquote, \<^verbatim>\<open>([^`]+)\<close>, a backquote
  \<^item> \<open>sep_rx\<close>: \<^verbatim>\<open>^[-:]+$\<close>
  \<^item> \<open>header_rx\<close>: \<^verbatim>\<open>^(#{1,4})\s+(.+)$\<close>
  \<^item> \<open>bullet_rx\<close>: \<^verbatim>\<open>^[-*]\s+(.+)$\<close>
  \<^item> \<open>numbered_rx\<close>: \<^verbatim>\<open>^\d+[.)]\s+(.+)$\<close>
\<close>

abbreviation rx_star :: "(char \<Rightarrow> bool) \<Rightarrow> rx" where
  "rx_star P \<equiv> Rep True 0 None P"

abbreviation rx_plus :: "(char \<Rightarrow> bool) \<Rightarrow> rx" where
  "rx_plus P \<equiv> Rep True 1 None P"

abbreviation rx_one :: "(char \<Rightarrow> bool) \<Rightarrow> rx" where
  "rx_one P \<equiv> Rep True 1 (Some 1) P"

definition lits :: "string \<Rightarrow> rx list" where
  "lits w = map Lit w"

definition citation_rx :: "(char \<Rightarrow> bool) \<Rightarrow> rx list" where
  \<open>citation_rx sp =
     lits ''[Source:'' @
     [rx_star sp, Lit (CHR 0x22), Open 1, rx_plus (none_of [CHR 0x22]), Close 1, Lit (CHR 0x22),
      Opt [Lit (CHR '',''), rx_star sp, Open 2, rx_star (none_of '']''), Close 2],
      Lit (CHR '']''), Lit (CHR ''(''), Open 3, rx_plus (none_of '')''), Close 3, Lit (CHR '')'')]\<close>

definition unsourced_rx :: "(char \<Rightarrow> bool) \<Rightarrow> rx list" where
  "unsourced_rx sp =
     lits ''[Unsourced'' @
     [rx_star sp, Lit (CHR ''-''), Lit (CHR ''-''), rx_star sp,
      Open 1, rx_plus (none_of '']''), Close 1, Lit (CHR '']'')]"

definition link_rx :: "rx list" where
  "link_rx =
     [Lit (CHR ''[''), Open 1, rx_plus (none_of '']''), Close 1, Lit (CHR '']''),
      Lit (CHR ''(''), Open 2, rx_plus (none_of '')''), Close 2, Lit (CHR '')'')]"

definition bold_rx :: "(char \<Rightarrow> bool) \<Rightarrow> rx list" where
  "bold_rx dot =
     [Lit (CHR ''*''), Lit (CHR ''*''), Open 1, Rep False 1 None dot, Close 1,
      Lit (CHR ''*''), Lit (CHR ''*'')]"

definition code_rx :: "rx list" where
  "code_rx = [Lit (CHR 0x60), Open 1, rx_plus (none_of [CHR 0x60]), Close 1, Lit (CHR 0x60)]"

definition sep_rx :: "bool \<Rightarrow> rx list" where
  "sep_rx nl = [rx_plus (one_of ''-:''), Eos nl]"

definition header_rx :: "(char \<Rightarrow> bool) \<Rightarrow> (char \<Rightarrow> bool) \<Rightarrow> bool \<Rightarrow> rx list" where
  "header_rx sp dot nl =
     [Open 1, Rep True 1 (Some 4) (one_of ''#''), Close 1, rx_plus sp,
      Open 2, rx_plus dot, Close 2, Eos nl]"

definition bullet_rx :: "(char \<Rightarrow> bool) \<Rightarrow> (char \<Rightarrow> bool) \<Rightarrow> bool \<Rightarrow> rx list" where
  "bullet_rx sp dot nl = [rx_one (one_of ''-*''), rx_plus sp, Open 1, rx_plus dot, Close 1, Eos nl]"

definition numbered_rx :: "(char \<Rightarrow> bool) \<Rightarrow> (char \<Rightarrow> bool) \<Rightarrow> bool \<Rightarrow> rx list" where
  "numbered_rx sp dot nl =
     [rx_plus is_digit, rx_one (one_of ''.)''), rx_plus sp, Open 1, rx_plus dot, Close 1, Eos nl]"

section \<open>Substitution\<close>

text \<open>
  \<open>sub p r s\<close> is \<^verbatim>\<open>re.sub\<close> (and \<^verbatim>\<open>replace\<close> with the flag \<^verbatim>\<open>g\<close>): the
  matches of \<open>p\<close> in \<open>s\<close>, found from left to right and not overlapping, are replaced by
  \<open>r\<close> of the match; the text between them is copied. After an empty match the next
  character is copied and the search goes on behind it. \<open>grp m n\<close> is the text of group
  \<open>n\<close>, empty when the group took no part.
\<close>

definition grp :: "mstate \<Rightarrow> nat \<Rightarrow> string" where
  "grp m n = (case caps m n of Some g \<Rightarrow> g | None \<Rightarrow> [])"

function sub :: "rx list \<Rightarrow> (mstate \<Rightarrow> string) \<Rightarrow> string \<Rightarrow> string" where
  "sub p r s =
     (case rmatch p s m0 of
        Some (m, rest) \<Rightarrow>
          if length rest < length s then r m @ sub p r rest
          else r m @ (case s of [] \<Rightarrow> [] | x # xs \<Rightarrow> x # sub p r xs)
      | None \<Rightarrow> (case s of [] \<Rightarrow> [] | x # xs \<Rightarrow> x # sub p r xs))"
  by pat_completeness auto
termination
  by (relation "measure (\<lambda>(p, r, s). length s)") auto

declare sub.simps [simp del]

text \<open>
  The replacements: the function of the citation pass, and the templates of the other four
  passes (\<^verbatim>\<open>\1\<close> and \<^verbatim>\<open>\2\<close> in Python, \<^verbatim>\<open>$1\<close> and \<^verbatim>\<open>$2\<close> in the script).
\<close>

definition citation_repl :: "mstate \<Rightarrow> string" where
  \<open>citation_repl m =
     ''<a class="citation" href="'' @ grp m 3 @ ''" target="_blank" title="'' @ grp m 1 @ ''">'' @
     ''['' @ grp m 1 @ (if grp m 2 \<noteq> [] then '', '' @ grp m 2 else []) @ '']</a>''\<close>

definition unsourced_repl :: "mstate \<Rightarrow> string" where
  \<open>unsourced_repl m = ''<span class="unsourced" title="'' @ grp m 1 @ ''">[Unsourced]</span>''\<close>

definition link_repl :: "mstate \<Rightarrow> string" where
  \<open>link_repl m =
     ''<a class="source-link" href="'' @ grp m 2 @ ''" target="_blank">'' @ grp m 1 @ ''</a>''\<close>

definition bold_repl :: "mstate \<Rightarrow> string" where
  "bold_repl m = ''<strong>'' @ grp m 1 @ ''</strong>''"

definition code_repl :: "mstate \<Rightarrow> string" where
  "code_repl m = ''<code>'' @ grp m 1 @ ''</code>''"

definition inline_format :: "string \<Rightarrow> string" where
  "inline_format text =
     (let text = sub (citation_rx py_space) citation_repl text;
          text = sub (unsourced_rx py_space) unsourced_repl text;
          text = sub link_rx link_repl text;
          text = sub (bold_rx py_dot) bold_repl text;
          text = sub code_rx code_repl text
      in text)"

definition inlineFmt :: "string \<Rightarrow> string" where
  "inlineFmt t =
     (let t = sub (citation_rx js_space) citation_repl t;
          t = sub (unsourced_rx js_space) unsourced_repl t;
          t = sub link_rx link_repl t;
          t = sub (bold_rx js_dot) bold_repl t;
          t = sub code_rx code_repl t
      in t)"

section \<open>String helpers\<close>

text \<open>
  \<open>split_on\<close> is \<^verbatim>\<open>str.split(sep)\<close> for a separator of one character,
  \<open>strip_with\<close> is \<^verbatim>\<open>strip()\<close> or \<^verbatim>\<open>trim()\<close> for the given white space,
  \<open>join_with\<close> is \<^verbatim>\<open>sep.join(xs)\<close>, and \<open>str_int\<close> prints an integer in decimal,
  as an f-string and string concatenation in the script do.
\<close>

fun split_on :: "char \<Rightarrow> string \<Rightarrow> string list" where
  "split_on c [] = [[]]"
| "split_on c (x # xs) =
     (if x = c then [] # split_on c xs
      else (case split_on c xs of y # ys \<Rightarrow> (x # y) # ys | [] \<Rightarrow> [[x]]))"

definition strip_with :: "(char \<Rightarrow> bool) \<Rightarrow> string \<Rightarrow> string" where
  "strip_with sp s = rev (dropWhile sp (rev (dropWhile sp s)))"

fun join_with :: "string \<Rightarrow> string list \<Rightarrow> string" where
  "join_with sep [] = []"
| "join_with sep [x] = x"
| "join_with sep (x # y # ys) = x @ sep @ join_with sep (y # ys)"

definition digit_char :: "nat \<Rightarrow> char" where
  "digit_char d = ''0123456789'' ! (d mod 10)"

fun str_nat :: "nat \<Rightarrow> string" where
  "str_nat n = (if n < 10 then [digit_char n] else str_nat (n div 10) @ [digit_char (n mod 10)])"

declare str_nat.simps [simp del]

definition str_int :: "int \<Rightarrow> string" where
  "str_int i = (if i < 0 then CHR ''-'' # str_nat (nat (- i)) else str_nat (nat i))"

section \<open>The block renderers\<close>

text \<open>
  The loop of \<^verbatim>\<open>md_to_html\<close> keeps the output lines and the two flags
  \<^verbatim>\<open>in_list\<close> and \<^verbatim>\<open>in_table\<close> (\<^verbatim>\<open>table_header_done\<close> is written and never
  read). \<open>md_line\<close> is one pass through the loop body; each \<^verbatim>\<open>continue\<close> of the
  source ends a branch here. \<^verbatim>\<open>stripped.split("|")[1:-1]\<close> drops the first and the
  last fragment.
\<close>

record md_state =
  result :: "string list"
  in_list :: bool
  in_table :: bool

definition md_line :: "md_state \<Rightarrow> string \<Rightarrow> md_state" where
  \<open>md_line st line =
     (let stripped = strip_with py_space line in
      if stripped = [] then
        \<lparr>result = result st @ (if in_list st then [''</ul>''] else [])
                              @ (if in_table st then [''</tbody></table>''] else []) @ [[]],
         in_list = False, in_table = False\<rparr>
      else if CHR ''|'' \<in> set stripped \<and> take 1 stripped = ''|'' then
        (let cells = map (strip_with py_space) (butlast (tl (split_on (CHR ''|'') stripped))) in
         if list_all (\<lambda>c. rmatch (sep_rx True) c m0 \<noteq> None) cells then st
         else if \<not> in_table st then
           st\<lparr>result := result st @ [''<table class="debate-table"><thead><tr>'']
                          @ map (\<lambda>c. ''<th>'' @ inline_format c @ ''</th>'') cells
                          @ [''</tr></thead><tbody>''],
              in_table := True\<rparr>
         else
           st\<lparr>result := result st @ [''<tr>'']
                          @ map (\<lambda>c. ''<td>'' @ inline_format c @ ''</td>'') cells
                          @ [''</tr>'']\<rparr>)
      else
        (let st = (if in_table st
                   then st\<lparr>result := result st @ [''</tbody></table>''], in_table := False\<rparr>
                   else st) in
         case rmatch (header_rx py_space py_dot True) stripped m0 of
           Some (m, _) \<Rightarrow>
             (let st = (if in_list st
                        then st\<lparr>result := result st @ [''</ul>''], in_list := False\<rparr> else st);
                  level = min (length (grp m 1) + 2) 6
              in st\<lparr>result := result st @
                      [''<h'' @ str_nat level @ ''>'' @ inline_format (grp m 2)
                       @ ''</h'' @ str_nat level @ ''>'']\<rparr>)
         | None \<Rightarrow>
             (case rmatch (bullet_rx py_space py_dot True) stripped m0 of
                Some (m, _) \<Rightarrow>
                  (let st = (if \<not> in_list st
                             then st\<lparr>result := result st @ [''<ul class="debate-list">''],
                                     in_list := True\<rparr> else st)
                   in st\<lparr>result := result st @ [''  <li>'' @ inline_format (grp m 1) @ ''</li>'']\<rparr>)
              | None \<Rightarrow>
                  (case rmatch (numbered_rx py_space py_dot True) stripped m0 of
                     Some (m, _) \<Rightarrow>
                       (let st = (if \<not> in_list st
                                  then st\<lparr>result := result st @ [''<ul class="debate-list">''],
                                          in_list := True\<rparr> else st)
                        in st\<lparr>result := result st @
                                [''  <li>'' @ inline_format (grp m 1) @ ''</li>'']\<rparr>)
                   | None \<Rightarrow>
                       (let st = (if in_list st
                                  then st\<lparr>result := result st @ [''</ul>''], in_list := False\<rparr>
                                  else st)
                        in st\<lparr>result := result st @
                                [''<p>'' @ inline_format stripped @ ''</p>'']\<rparr>)))))\<close>

definition md_to_html :: "string \<Rightarrow> string" where
  "md_to_html text =
     (let st = foldl md_line \<lparr>result = [], in_list = False, in_table = False\<rparr>
                 (split_on (CHR 0x0A) text);
          res = result st @ (if in_list st then [''</ul>''] else [])
                          @ (if in_table st then [''</tbody></table>''] else [])
      in join_with [CHR 0x0A] res)"

text \<open>
  The same loop in the embedded script, \<^verbatim>\<open>mdToHtml\<close>, written from its own source:
  it returns the empty string for an empty text, trims with \<^verbatim>\<open>trim()\<close>, and tries the
  numbered-list expression only when the bullet expression did not match.
\<close>

definition mdLine :: "md_state \<Rightarrow> string \<Rightarrow> md_state" where
  \<open>mdLine st line =
     (let s = strip_with js_space line in
      if s = [] then
        \<lparr>result = result st @ (if in_list st then [''</ul>''] else [])
                              @ (if in_table st then [''</tbody></table>''] else []) @ [[]],
         in_list = False, in_table = False\<rparr>
      else if take 1 s = ''|'' \<and> CHR ''|'' \<in> set s then
        (let cells = map (strip_with js_space) (butlast (tl (split_on (CHR ''|'') s))) in
         if list_all (\<lambda>c. rmatch (sep_rx False) c m0 \<noteq> None) cells then st
         else if \<not> in_table st then
           st\<lparr>result := result st @ [''<table class="debate-table"><thead><tr>'']
                          @ map (\<lambda>c. ''<th>'' @ inlineFmt c @ ''</th>'') cells
                          @ [''</tr></thead><tbody>''],
              in_table := True\<rparr>
         else
           st\<lparr>result := result st @ [''<tr>'']
                          @ map (\<lambda>c. ''<td>'' @ inlineFmt c @ ''</td>'') cells
                          @ [''</tr>'']\<rparr>)
      else
        (let st = (if in_table st
                   then st\<lparr>result := result st @ [''</tbody></table>''], in_table := False\<rparr>
                   else st) in
         case rmatch (header_rx js_space js_dot False) s m0 of
           Some (hm, _) \<Rightarrow>
             (let st = (if in_list st
                        then st\<lparr>result := result st @ [''</ul>''], in_list := False\<rparr> else st);
                  lvl = min (length (grp hm 1) + 2) 6
              in st\<lparr>result := result st @
                      [''<h'' @ str_nat lvl @ ''>'' @ inlineFmt (grp hm 2)
                       @ ''</h'' @ str_nat lvl @ ''>'']\<rparr>)
         | None \<Rightarrow>
             (case (case rmatch (bullet_rx js_space js_dot False) s m0 of
                      Some r \<Rightarrow> Some r
                    | None \<Rightarrow> rmatch (numbered_rx js_space js_dot False) s m0) of
                Some (bm, _) \<Rightarrow>
                  (let st = (if \<not> in_list st
                             then st\<lparr>result := result st @ [''<ul class="debate-list">''],
                                     in_list := True\<rparr> else st)
                   in st\<lparr>result := result st @ [''  <li>'' @ inlineFmt (grp bm 1) @ ''</li>'']\<rparr>)
              | None \<Rightarrow>
                  (let st = (if in_list st
                             then st\<lparr>result := result st @ [''</ul>''], in_list := False\<rparr>
                             else st)
                   in st\<lparr>result := result st @ [''<p>'' @ inlineFmt s @ ''</p>'']\<rparr>))))\<close>

definition mdToHtml :: "string \<Rightarrow> string" where
  "mdToHtml text =
     (if text = [] then []
      else
        (let st = foldl mdLine \<lparr>result = [], in_list = False, in_table = False\<rparr>
                    (split_on (CHR 0x0A) text);
             res = result st @ (if in_list st then [''</ul>''] else [])
                             @ (if in_table st then [''</tbody></table>''] else [])
         in join_with [CHR 0x0A] res))"

section \<open>The state document\<close>

text \<open>
  The persisted document is a JSON object with seven keys, and each entry of its
  \<^verbatim>\<open>entries\<close> list is an object with five keys. Every document the program writes has
  all of them, with the types below; the model takes documents of that shape, so the
  defaults of \<^verbatim>\<open>dict.get\<close> for a missing key are not reached. Python's integers are
  unbounded: \<^typ>\<open>int\<close>. \<^verbatim>\<open>None\<close> for the thinking agent is \<^term>\<open>None\<close>.
\<close>

record entry =
  e_round :: int
  e_agent :: string
  e_content :: string
  e_type :: string
  e_timestamp :: string

record state =
  topic :: string
  status :: string
  thinking :: "string option"
  current_round :: int
  total_rounds :: int
  version :: int
  entries :: "entry list"

section \<open>The page\<close>

text \<open>
  \<^verbatim>\<open>AGENT_CONFIG\<close>; the icons are given by their code points.
\<close>

record agent_cfg =
  cfg_name :: string
  cfg_role :: string
  cfg_color :: string
  cfg_bg :: string
  cfg_border :: string
  cfg_icon :: "nat list"
  cfg_align :: string

definition critic :: agent_cfg where
  "critic = \<lparr>cfg_name = ''Critic'', cfg_role = ''Adversarial Thinker'', cfg_color = ''#EF4444'',
              cfg_bg = ''#FEF2F2'', cfg_border = ''#FECACA'', cfg_icon = [0x2694, 0xFE0F],
              cfg_align = ''left''\<rparr>"

definition advocate :: agent_cfg where
  "advocate = \<lparr>cfg_name = ''Advocate'', cfg_role = ''Rigorous Defender'', cfg_color = ''#3B82F6'',
                cfg_bg = ''#EFF6FF'', cfg_border = ''#BFDBFE'', cfg_icon = [0x1F6E1, 0xFE0F],
                cfg_align = ''right''\<rparr>"

definition judge :: agent_cfg where
  "judge = \<lparr>cfg_name = ''Judge'', cfg_role = ''Impartial Arbiter'', cfg_color = ''#8B5CF6'',
             cfg_bg = ''#F5F3FF'', cfg_border = ''#DDD6FE'', cfg_icon = [0x2696, 0xFE0F],
             cfg_align = ''left''\<rparr>"

definition scribe :: agent_cfg where
  "scribe = \<lparr>cfg_name = ''Scribe'', cfg_role = ''Neutral Recorder'', cfg_color = ''#10B981'',
              cfg_bg = ''#ECFDF5'', cfg_border = ''#A7F3D0'', cfg_icon = [0x1F4DD],
              cfg_align = ''right''\<rparr>"

definition AGENT_CONFIG :: "string \<rightharpoonup> agent_cfg" where
  "AGENT_CONFIG = [''critic'' \<mapsto> critic, ''advocate'' \<mapsto> advocate,
                   ''judge'' \<mapsto> judge, ''scribe'' \<mapsto> scribe]"

text \<open>
  \<^verbatim>\<open>str.lower()\<close> below 256: the letters A to Z and the capital letters from 192 to
  222 other than the multiplication sign move up by 32.
\<close>

definition lower_char :: "char \<Rightarrow> char" where
  "lower_char c =
     (let n = (of_char c :: nat) in
      if (65 \<le> n \<and> n \<le> 90) \<or> (192 \<le> n \<and> n \<le> 222 \<and> n \<noteq> 215)
      then char_of (n + 32) else c)"

definition lower :: "string \<Rightarrow> string" where
  "lower s = map lower_char s"

definition agent_lookup :: "string \<Rightarrow> agent_cfg" where
  "agent_lookup key = (case AGENT_CONFIG key of Some cfg \<Rightarrow> cfg | None \<Rightarrow> critic)"

text \<open>
  The feed of the page is a sequence of elements. The markup around the values that are
  put into an element is fixed text of the source and is not spelled out: an element is
  given by its kind and those values. \<open>RoundDivider label\<close> is the
  \<^verbatim>\<open>round-divider\<close> with its label; \<open>BubbleRow cfg animate ts content\<close> is the bubble
  of one entry with the descriptor of its agent, the \<^verbatim>\<open>slide-in\<close> class, the timestamp
  and the rendered content; \<open>ThinkingBubble\<close> is the thinking indicator and
  \<open>EmptyState\<close> the placeholder of an empty feed. The page is given by the values that
  \<^verbatim>\<open>build_html\<close> puts into its template: the escaped topic, the status badge, the
  feed, and the three values that seed the script.
\<close>

datatype element =
    EmptyState
  | RoundDivider string
  | BubbleRow agent_cfg bool string string
  | ThinkingBubble agent_cfg bool

record page =
  pg_topic :: string
  pg_status_badge :: string
  pg_feed :: "element list"
  pg_version :: int
  pg_completed :: bool
  pg_entry_count :: nat

definition escape_char :: "char \<Rightarrow> string" where
  "escape_char c =
     (if c = CHR ''&'' then ''&amp;''
      else if c = CHR ''<'' then ''&lt;''
      else if c = CHR ''>'' then ''&gt;''
      else if c = CHR 0x22 then ''&quot;''
      else if c = CHR 0x27 then ''&#x27;''
      else [c])"

definition escape :: "string \<Rightarrow> string" where
  "escape s = concat (map escape_char s)"

text \<open>
  \<^verbatim>\<open>build_html\<close> groups the entries by round in a dictionary, here an association
  list in insertion order (\<open>setdefault_append\<close> is
  \<^verbatim>\<open>rounds.setdefault(r, []).append(e)\<close>), and renders the rounds in ascending order
  of their number, each under its divider.
\<close>

fun setdefault_append :: "int \<Rightarrow> entry \<Rightarrow> (int \<times> entry list) list \<Rightarrow> (int \<times> entry list) list" where
  "setdefault_append r e [] = [(r, [e])]"
| "setdefault_append r e ((k, v) # kvs) =
     (if k = r then (k, v @ [e]) # kvs else (k, v) # setdefault_append r e kvs)"

definition round_label :: "int \<Rightarrow> string" where
  "round_label round_num = (if round_num = 0 then ''Final Synthesis'' else ''Round '' @ str_int round_num)"

definition ssr_bubble :: "entry \<Rightarrow> element" where
  "ssr_bubble entry =
     BubbleRow (agent_lookup (lower (e_agent entry))) False (e_timestamp entry)
       (md_to_html (e_content entry))"

definition ssr_round :: "(int \<times> entry list) list \<Rightarrow> int \<Rightarrow> element list" where
  "ssr_round rounds round_num =
     RoundDivider (round_label round_num) #
     map ssr_bubble (case map_of rounds round_num of Some es \<Rightarrow> es | None \<Rightarrow> [])"

definition ssr_entries :: "entry list \<Rightarrow> element list" where
  "ssr_entries es =
     (let rounds = foldl (\<lambda>acc e. setdefault_append (e_round e) e acc) [] es
      in concat (map (ssr_round rounds) (sort (map fst rounds))))"

definition truthy :: "string option \<Rightarrow> bool" where
  "truthy x = (case x of Some s \<Rightarrow> s \<noteq> [] | None \<Rightarrow> False)"

definition status_badge :: "state \<Rightarrow> string" where
  \<open>status_badge st =
     (if status st = ''completed''
      then ''<span class="status-badge completed">Debate Complete</span>''
      else ''<span class="status-badge in-progress">Round '' @ str_int (current_round st)
           @ '' of '' @ str_int (total_rounds st) @ ''</span>'')\<close>

definition build_html :: "state \<Rightarrow> page" where
  "build_html st =
     (let ssr = ssr_entries (entries st);
          ssr_thinking =
            (case thinking st of
               Some t \<Rightarrow> if t \<noteq> [] \<and> status st = ''in_progress''
                         then [ThinkingBubble (agent_lookup (lower t)) False] else []
             | None \<Rightarrow> [])
      in \<lparr>pg_topic = escape (topic st),
          pg_status_badge = status_badge st,
          pg_feed = (if ssr \<noteq> [] then ssr else [EmptyState]) @ ssr_thinking,
          pg_version = version st,
          pg_completed = (status st = ''completed''),
          pg_entry_count = length (entries st)\<rparr>)"

section \<open>The client script\<close>

text \<open>
  The state of the embedded script: the feed element of the page and the variables
  \<^verbatim>\<open>knownVersion\<close>, \<^verbatim>\<open>isCompleted\<close> and \<^verbatim>\<open>renderedEntryCount\<close>, seeded from
  the page. \<open>applyUpdate\<close> follows the function of that name. The rounds already
  rendered are read back from the labels of the dividers in the feed with the expression
  \<^verbatim>\<open>Round (\d+)\<close>, searched anywhere in the label, and \<^verbatim>\<open>parseInt\<close>.
  \<^verbatim>\<open>entry.round || 1\<close> is 1 when the round is 0. Property names that an object
  of the script inherits are not modelled: an agent key outside the registry selects the
  descriptor of the critic, as in \<^verbatim>\<open>build_html\<close>.
\<close>

record client =
  feed :: "element list"
  statusBadge :: string
  knownVersion :: int
  isCompleted :: bool
  renderedEntryCount :: nat

definition page_load :: "page \<Rightarrow> client" where
  "page_load pg =
     \<lparr>feed = pg_feed pg, statusBadge = pg_status_badge pg, knownVersion = pg_version pg,
      isCompleted = pg_completed pg, renderedEntryCount = pg_entry_count pg\<rparr>"

definition renderBubble :: "entry \<Rightarrow> bool \<Rightarrow> element" where
  "renderBubble entry animate =
     BubbleRow (agent_lookup (lower (e_agent entry))) animate (e_timestamp entry)
       (mdToHtml (e_content entry))"

definition renderRoundDivider :: "int \<Rightarrow> element" where
  "renderRoundDivider roundNum =
     RoundDivider (if roundNum = 0 then ''Final Synthesis'' else ''Round '' @ str_int roundNum)"

fun rsearch :: "rx list \<Rightarrow> string \<Rightarrow> (mstate \<times> string) option" where
  "rsearch p [] = rmatch p [] m0"
| "rsearch p (x # xs) = (case rmatch p (x # xs) m0 of Some r \<Rightarrow> Some r | None \<Rightarrow> rsearch p xs)"

definition round_rx :: "rx list" where
  "round_rx = lits ''Round '' @ [Open 1, rx_plus is_digit, Close 1]"

definition digit_val :: "char \<Rightarrow> int" where
  "digit_val c = int (of_char c) - 48"

definition parseInt :: "string \<Rightarrow> int" where
  "parseInt ds = foldl (\<lambda>n c. 10 * n + digit_val c) 0 ds"

fun divider_rounds :: "element \<Rightarrow> int list" where
  "divider_rounds (RoundDivider label) =
     (case rsearch round_rx label of Some (m, _) \<Rightarrow> [parseInt (grp m 1)] | None \<Rightarrow> [])
     @ (if label = ''Final Synthesis'' then [0] else [])"
| "divider_rounds _ = []"

fun is_thinking :: "element \<Rightarrow> bool" where
  "is_thinking (ThinkingBubble _ _) = True"
| "is_thinking _ = False"

fun remove_first :: "('a \<Rightarrow> bool) \<Rightarrow> 'a list \<Rightarrow> 'a list" where
  "remove_first P [] = []"
| "remove_first P (x # xs) = (if P x then xs else x # remove_first P xs)"

definition append_entry :: "element list \<times> int list \<Rightarrow> entry \<Rightarrow> element list \<times> int list" where
  "append_entry acc entry =
     (let roundNum = (if e_round entry = 0 then 1 else e_round entry);
          acc = (if roundNum \<notin> set (snd acc)
                 then (fst acc @ [renderRoundDivider roundNum], snd acc @ [roundNum]) else acc)
      in (fst acc @ [renderBubble entry True], snd acc))"

definition applyUpdate :: "state \<Rightarrow> client \<Rightarrow> client" where
  \<open>applyUpdate st cl =
     (let newEntries = drop (renderedEntryCount cl) (entries st);
          fd = (if newEntries \<noteq> [] then remove_first (\<lambda>el. el = EmptyState) (feed cl) else feed cl);
          fd = remove_first is_thinking fd;
          renderedRounds = concat (map divider_rounds fd);
          fd = fst (foldl append_entry (fd, renderedRounds) newEntries);
          fd = (case thinking st of
                  Some t \<Rightarrow> if t \<noteq> [] \<and> status st = ''in_progress''
                            then fd @ [ThinkingBubble (agent_lookup (lower t)) True] else fd
                | None \<Rightarrow> fd)
      in \<lparr>feed = fd,
          statusBadge =
            (if status st = ''completed''
             then ''<span class="status-badge completed">Debate Complete</span>''
             else ''<span class="status-badge in-progress">Round ''
                  @ str_int (if current_round st = 0 then 1 else current_round st) @ '' of ''
                  @ str_int (if total_rounds st = 0 then 3 else total_rounds st) @ ''</span>''),
          knownVersion = version st,
          isCompleted = (isCompleted cl \<or> status st = ''completed''),
          renderedEntryCount = length (entries st)\<rparr>)\<close>

section \<open>The command line\<close>

text \<open>
  The parsed command line, as \<^verbatim>\<open>argparse\<close> returns it: an option that was not given
  is \<^verbatim>\<open>None\<close>, a flag is a truth value, and \<^verbatim>\<open>--type\<close> has the default
  \<^verbatim>\<open>"turn"\<close>.
\<close>

record arguments =
  a_init :: "string option"
  a_add :: bool
  a_agent :: "string option"
  a_round :: "int option"
  a_content_file :: "string option"
  a_content :: "string option"
  a_type :: string
  a_status :: "string option"
  a_thinking :: "string option"
  a_set_round :: "int option"
  a_serve :: bool
  a_stop_server :: bool

definition no_args :: arguments where
  "no_args = \<lparr>a_init = None, a_add = False, a_agent = None, a_round = None,
               a_content_file = None, a_content = None, a_type = ''turn'', a_status = None,
               a_thinking = None, a_set_round = None, a_serve = False, a_stop_server = False\<rparr>"

text \<open>
  The part of the outside world that \<^verbatim>\<open>main\<close> reads and writes: the document at
  \<^verbatim>\<open>STATE_FILE\<close> (\<open>None\<close> when the path does not exist), the page at
  \<^verbatim>\<open>HTML_FILE\<close>, the other files by path with the text that reading them returns (the
  content files), the wall clock as \<^verbatim>\<open>strftime("%H:%M")\<close> prints it, the process
  id recorded in \<^verbatim>\<open>PID_FILE\<close>, and the id that a newly started server process gets.
  A path that exists is a text file that can be read. Writing the document and reading
  it back returns the document.
\<close>

record world =
  state_file :: "state option"
  html_file :: "page option"
  files :: "string \<rightharpoonup> string"
  clock :: string
  pid_file :: "nat option"
  spawn_pid :: nat

definition load_state :: "world \<Rightarrow> state" where
  "load_state w =
     (case state_file w of
        Some s \<Rightarrow> s
      | None \<Rightarrow> \<lparr>topic = [], status = ''in_progress'', thinking = None,
                 current_round = 1, total_rounds = 3, version = 0, entries = []\<rparr>)"

definition save_state :: "state \<Rightarrow> world \<Rightarrow> state \<times> world" where
  "save_state st w =
     (let st = st\<lparr>version := version st + 1\<rparr> in (st, w\<lparr>state_file := Some st\<rparr>))"

definition stop_server :: "world \<Rightarrow> world" where
  "stop_server w = w\<lparr>pid_file := None\<rparr>"

definition start_server :: "world \<Rightarrow> world" where
  "start_server w = (stop_server w)\<lparr>pid_file := Some (spawn_pid w)\<rparr>"

text \<open>
  \<^verbatim>\<open>main\<close>, branch by branch. A condition \<^verbatim>\<open>if args.x:\<close> on an optional string or
  integer holds when the option was given and is neither empty nor zero; \<^verbatim>\<open>a or b\<close>
  is \<open>a\<close> under the same condition and \<open>b\<close> otherwise. The branches run in the
  order of the source: init, add, status, thinking, set-round; then the document is saved
  and the page is written.
\<close>

definition init_branch :: "arguments \<Rightarrow> state \<Rightarrow> state" where
  "init_branch a st =
     (case a_init a of
        Some t \<Rightarrow>
          if t \<noteq> [] then
            st\<lparr>topic := t, status := ''in_progress'', thinking := None,
               current_round := 1, version := 0, entries := []\<rparr>
          else st
      | None \<Rightarrow> st)"

definition add_content :: "arguments \<Rightarrow> world \<Rightarrow> string" where
  "add_content a w =
     (let inline = (case a_content a of Some c \<Rightarrow> c | None \<Rightarrow> []) in
      case a_content_file a of
        Some p \<Rightarrow> if p \<noteq> [] then (case files w p of Some txt \<Rightarrow> txt | None \<Rightarrow> inline) else inline
      | None \<Rightarrow> inline)"

definition add_branch :: "arguments \<Rightarrow> world \<Rightarrow> state \<Rightarrow> state" where
  "add_branch a w st =
     (if a_add a then
        st\<lparr>entries := entries st @
          [\<lparr>e_round = (case a_round a of
                          Some r \<Rightarrow> if r \<noteq> 0 then r else current_round st
                        | None \<Rightarrow> current_round st),
            e_agent = (case a_agent a of
                         Some g \<Rightarrow> if g \<noteq> [] then g else ''unknown''
                       | None \<Rightarrow> ''unknown''),
            e_content = add_content a w,
            e_type = a_type a,
            e_timestamp = clock w\<rparr>]\<rparr>
      else st)"

definition status_branch :: "arguments \<Rightarrow> state \<Rightarrow> state" where
  "status_branch a st =
     (case a_status a of Some s \<Rightarrow> if s \<noteq> [] then st\<lparr>status := s\<rparr> else st | None \<Rightarrow> st)"

definition thinking_branch :: "arguments \<Rightarrow> state \<Rightarrow> state" where
  "thinking_branch a st =
     (case a_thinking a of
        Some t \<Rightarrow>
          if t \<noteq> [] then st\<lparr>thinking := (if lower t = ''none'' then None else Some t)\<rparr> else st
      | None \<Rightarrow> st)"

definition set_round_branch :: "arguments \<Rightarrow> state \<Rightarrow> state" where
  "set_round_branch a st =
     (case a_set_round a of
        Some r \<Rightarrow> if r \<noteq> 0 then st\<lparr>current_round := r\<rparr> else st
      | None \<Rightarrow> st)"

definition main :: "arguments \<Rightarrow> world \<Rightarrow> world" where
  "main a w =
     (if a_serve a then start_server w
      else if a_stop_server a then stop_server w
      else
        (let st = load_state w;
             st = init_branch a st;
             st = add_branch a w st;
             st = status_branch a st;
             st = thinking_branch a st;
             st = set_round_branch a st;
             (st, w) = save_state st w
         in w\<lparr>html_file := Some (build_html st)\<rparr>))"

definition run :: "arguments list \<Rightarrow> world \<Rightarrow> world" where
  "run ops w = foldl (\<lambda>w a. main a w) w ops"

section \<open>Notions used in the statements\<close>

text \<open>
  An invocation that saves and does not initialize: neither \<^verbatim>\<open>--serve\<close> nor
  \<^verbatim>\<open>--stop-server\<close>, and no non-empty \<^verbatim>\<open>--init\<close>.
\<close>

definition plain_save :: "arguments \<Rightarrow> bool" where
  "plain_save a \<longleftrightarrow> \<not> a_serve a \<and> \<not> a_stop_server a \<and> \<not> truthy (a_init a)"

text \<open>The labels of the round dividers of a feed, in order.\<close>

fun divider_label :: "element \<Rightarrow> string list" where
  "divider_label (RoundDivider label) = [label]"
| "divider_label _ = []"









text \<open>Sample values: an empty world, an entry of round 0, and documents that hold it.\<close>

definition w0 :: world where
  "w0 = \<lparr>state_file = None, html_file = None, files = Map.empty, clock = ''09:30'',
         pid_file = None, spawn_pid = 4242\<rparr>"

definition e0 :: entry where
  "e0 = \<lparr>e_round = 0, e_agent = ''Scribe'', e_content = ''done'', e_type = ''synthesis'',
         e_timestamp = ''10:00''\<rparr>"

definition s0 :: state where
  "s0 = \<lparr>topic = ''old'', status = ''in_progress'', thinking = None,
          current_round = 2, total_rounds = 3, version = 5, entries = []\<rparr>"

definition w1 :: world where
  "w1 = w0\<lparr>state_file := Some \<lparr>topic = ''old'', status = ''completed'', thinking = None,
          current_round = 2, total_rounds = 3, version = 5, entries = [e0]\<rparr>\<rparr>"

subsection \<open>Notions for comparing the two renderers\<close>

text \<open>
  The characters on which the two engines agree: all but the carriage return, which
  \<^verbatim>\<open>.\<close> matches in Python only, and the five characters that are white space in
  Python only. Inside a line the line feed does not occur either.
\<close>

definition common :: "char \<Rightarrow> bool" where
  "common c \<longleftrightarrow> c \<notin> set [CHR 0x0D, CHR 0x1C, CHR 0x1D, CHR 0x1E, CHR 0x1F, CHR 0x85]"

definition inl :: "char \<Rightarrow> bool" where
  "inl c \<longleftrightarrow> common c \<and> c \<noteq> CHR 0x0A"

text \<open>
  An expression restricted to the characters inside a line: its classes are cut down to
  those characters, and \<^verbatim>\<open>$\<close> is the end of the string.
\<close>

fun restrict :: "rx \<Rightarrow> rx" where
  "restrict (Rep g lo hi P) = Rep g lo hi (\<lambda>c. inl c \<and> P c)"
| "restrict (Opt q) = Opt (map restrict q)"
| "restrict (Eos nl) = Eos False"
| "restrict r = r"

text \<open>The groups of a matcher state hold only characters that occur inside a line.\<close>

definition caps_in :: "mstate \<Rightarrow> bool" where
  "caps_in m \<longleftrightarrow>
     (\<forall>n. list_all inl (opens m n)) \<and> (\<forall>n g. caps m n = Some g \<longrightarrow> list_all inl g)"

section \<open>Facts about the matcher and the substitution\<close>

lemma rmatch_lits: "rmatch (map Lit w @ p) (w @ s) m = rmatch p s m"
  by (induction w) simp_all





subsection \<open>Substitution\<close>

lemma sub_Nil: "rmatch p [] m0 = None \<Longrightarrow> sub p r [] = []"
  by (simp add: sub.simps)

lemma sub_Cons_None: "rmatch p (x # xs) m0 = None \<Longrightarrow> sub p r (x # xs) = x # sub p r xs"
  by (subst sub.simps) simp


lemma sub_Cons_other: "x \<noteq> c \<Longrightarrow> sub (Lit c # p) r (x # xs) = x # sub (Lit c # p) r xs"
  by (rule sub_Cons_None) simp

lemma sub_skip:
  "c \<notin> set pre \<Longrightarrow> sub (Lit c # p) r (pre @ s) = pre @ sub (Lit c # p) r s"
  by (induction pre) (auto simp: sub_Cons_other)

lemma sub_no_trigger: "c \<notin> set s \<Longrightarrow> sub (Lit c # p) r s = s"
  using sub_skip [of c s p r "[]"] by (simp add: sub_Nil)

lemma sub_one_trigger:
  assumes "c \<notin> set pre" and "c \<notin> set post" and "rmatch (Lit c # p) (c # post) m0 = None"
  shows "sub (Lit c # p) r (pre @ c # post) = pre @ c # post"
  by (simp add: sub_skip [OF assms(1)] sub_Cons_None [OF assms(3)] sub_no_trigger [OF assms(2)])

subsection \<open>The shape of a match\<close>






subsection \<open>A text without the delimiter survives a delimited substitution\<close>







subsection \<open>The passes of the inline formatter on a citation\<close>















subsection \<open>The text before the citation\<close>














section \<open>Facts about the command line\<close>

lemma version_add_branch: "version (add_branch a w st) = version st"
  by (simp add: add_branch_def)

lemma version_status_branch: "version (status_branch a st) = version st"
  by (simp add: status_branch_def split: option.splits)

lemma version_thinking_branch: "version (thinking_branch a st) = version st"
  by (simp add: thinking_branch_def split: option.splits)

lemma version_set_round_branch: "version (set_round_branch a st) = version st"
  by (simp add: set_round_branch_def split: option.splits)

lemma version_init_branch:
  "version (init_branch a st) = (if truthy (a_init a) then 0 else version st)"
  by (simp add: init_branch_def truthy_def split: option.splits)

lemmas version_branches =
  version_add_branch version_status_branch version_thinking_branch version_set_round_branch

lemma main_saving:
  "\<not> a_serve a \<Longrightarrow> \<not> a_stop_server a \<Longrightarrow>
     main a w =
       (let st = (set_round_branch a (thinking_branch a (status_branch a
                    (add_branch a w (init_branch a (load_state w))))))
        in w\<lparr>state_file := Some (st\<lparr>version := version st + 1\<rparr>),
             html_file := Some (build_html (st\<lparr>version := version st + 1\<rparr>))\<rparr>)"
  by (simp add: main_def save_state_def Let_def)

lemma load_state_main:
  "\<not> a_serve a \<Longrightarrow> \<not> a_stop_server a \<Longrightarrow>
     load_state (main a w) =
       (let st = (set_round_branch a (thinking_branch a (status_branch a
                    (add_branch a w (init_branch a (load_state w))))))
        in st\<lparr>version := version st + 1\<rparr>)"
  by (simp add: main_saving load_state_def Let_def)

lemma version_main:
  "\<not> a_serve a \<Longrightarrow> \<not> a_stop_server a \<Longrightarrow>
     version (load_state (main a w)) =
       (if truthy (a_init a) then 1 else version (load_state w) + 1)"
  by (simp add: load_state_main Let_def version_branches version_init_branch)

lemma version_run:
  "list_all plain_save ops \<Longrightarrow>
     version (load_state (run ops w)) = version (load_state w) + int (length ops)"
proof (induction ops arbitrary: w)
  case Nil
  then show ?case by (simp add: run_def)
next
  case (Cons a ops)
  from Cons.prems have "plain_save a" and rest: "list_all plain_save ops"
    by simp_all
  then have a: "\<not> a_serve a" "\<not> a_stop_server a" "\<not> truthy (a_init a)"
    by (simp_all add: plain_save_def)
  have "run (a # ops) w = run ops (main a w)"
    by (simp add: run_def)
  then show ?case
    using Cons.IH [OF rest, of "main a w"] version_main [OF a(1) a(2), of w] a(3)
    by simp
qed

section \<open>Unfolding rules for evaluation\<close>

lemmas rx_defs =
  citation_rx_def unsourced_rx_def link_rx_def bold_rx_def code_rx_def sep_rx_def
  header_rx_def bullet_rx_def numbered_rx_def lits_def
  py_space_def js_space_def py_dot_def js_dot_def is_digit_def one_of_def none_of_def m0_def

lemmas repl_defs =
  citation_repl_def unsourced_repl_def link_repl_def bold_repl_def code_repl_def grp_def

lemmas md_defs =
  md_to_html_def md_line_def mdToHtml_def mdLine_def inline_format_def inlineFmt_def
  strip_with_def Let_def digit_char_def

lemmas page_defs =
  build_html_def ssr_entries_def ssr_round_def ssr_bubble_def round_label_def status_badge_def
  applyUpdate_def append_entry_def renderRoundDivider_def renderBubble_def page_load_def
  agent_lookup_def AGENT_CONFIG_def lower_def lower_char_def round_rx_def

section \<open>The two engines on their common characters\<close>

lemma rmatch_restrict:
  "list_all inl s \<Longrightarrow> rmatch (map restrict p) s m = rmatch p s m"
proof (induction p s m rule: rmatch.induct)
  case (4 nl p s m)
  then show ?case by (auto simp: inl_def)
next
  case (7 q p s m)
  then show ?case by (auto split: option.splits)
next
  case (9 lo hi P p x xs m)
  then show ?case by (auto split: option.splits)
next
  case (10 lo hi P p x xs m)
  then show ?case by (auto split: option.splits)
qed simp_all

lemma inl_space_eq: "inl c \<Longrightarrow> py_space c = js_space c"
  by (simp add: inl_def common_def py_space_def js_space_def)

lemma inl_dot_eq: "inl c \<Longrightarrow> py_dot c = js_dot c"
  by (simp add: inl_def common_def py_dot_def js_dot_def)

lemma inl_space: "(\<lambda>c. inl c \<and> py_space c) = (\<lambda>c. inl c \<and> js_space c)"
proof
  fix c show "(inl c \<and> py_space c) = (inl c \<and> js_space c)"
    by (cases "inl c") (simp_all add: inl_space_eq)
qed

lemma inl_dot: "(\<lambda>c. inl c \<and> py_dot c) = (\<lambda>c. inl c \<and> js_dot c)"
proof
  fix c show "(inl c \<and> py_dot c) = (inl c \<and> js_dot c)"
    by (cases "inl c") (simp_all add: inl_dot_eq)
qed

lemma rx_agree:
  "map restrict (citation_rx py_space) = map restrict (citation_rx js_space)"
  "map restrict (unsourced_rx py_space) = map restrict (unsourced_rx js_space)"
  "map restrict (bold_rx py_dot) = map restrict (bold_rx js_dot)"
  "map restrict (sep_rx True) = map restrict (sep_rx False)"
  "map restrict (header_rx py_space py_dot True) = map restrict (header_rx js_space js_dot False)"
  "map restrict (bullet_rx py_space py_dot True) = map restrict (bullet_rx js_space js_dot False)"
  "map restrict (numbered_rx py_space py_dot True) = map restrict (numbered_rx js_space js_dot False)"
  by (simp_all add: citation_rx_def unsourced_rx_def bold_rx_def sep_rx_def header_rx_def
      bullet_rx_def numbered_rx_def lits_def inl_space inl_dot)

lemma rmatch_agree:
  assumes "list_all inl s"
  shows "rmatch (citation_rx js_space) s m = rmatch (citation_rx py_space) s m"
    and "rmatch (unsourced_rx js_space) s m = rmatch (unsourced_rx py_space) s m"
    and "rmatch (bold_rx js_dot) s m = rmatch (bold_rx py_dot) s m"
    and "rmatch (sep_rx False) s m = rmatch (sep_rx True) s m"
    and "rmatch (header_rx js_space js_dot False) s m = rmatch (header_rx py_space py_dot True) s m"
    and "rmatch (bullet_rx js_space js_dot False) s m = rmatch (bullet_rx py_space py_dot True) s m"
    and "rmatch (numbered_rx js_space js_dot False) s m = rmatch (numbered_rx py_space py_dot True) s m"
proof -
  have r: "rmatch p s m = rmatch (map restrict p) s m" for p
    by (rule rmatch_restrict [OF assms, symmetric])
  show "rmatch (citation_rx js_space) s m = rmatch (citation_rx py_space) s m"
    by (subst r, subst (2) r) (simp only: rx_agree)
  show "rmatch (unsourced_rx js_space) s m = rmatch (unsourced_rx py_space) s m"
    by (subst r, subst (2) r) (simp only: rx_agree)
  show "rmatch (bold_rx js_dot) s m = rmatch (bold_rx py_dot) s m"
    by (subst r, subst (2) r) (simp only: rx_agree)
  show "rmatch (sep_rx False) s m = rmatch (sep_rx True) s m"
    by (subst r, subst (2) r) (simp only: rx_agree)
  show "rmatch (header_rx js_space js_dot False) s m = rmatch (header_rx py_space py_dot True) s m"
    by (subst r, subst (2) r) (simp only: rx_agree)
  show "rmatch (bullet_rx js_space js_dot False) s m = rmatch (bullet_rx py_space py_dot True) s m"
    by (subst r, subst (2) r) (simp only: rx_agree)
  show "rmatch (numbered_rx js_space js_dot False) s m = rmatch (numbered_rx py_space py_dot True) s m"
    by (subst r, subst (2) r) (simp only: rx_agree)
qed

lemma list_all_take: "list_all P xs \<Longrightarrow> list_all P (take k xs)"
  by (auto simp: list_all_iff dest: in_set_takeD)

lemma caps_in_m0: "caps_in m0"
  by (simp add: caps_in_def m0_def)

lemma caps_in_open:
  "caps_in m \<Longrightarrow> list_all inl s \<Longrightarrow> caps_in (m\<lparr>opens := (opens m)(n := s)\<rparr>)"
  by (simp add: caps_in_def)

lemma caps_in_close:
  "caps_in m \<Longrightarrow> caps_in (m\<lparr>caps := (caps m)(n \<mapsto> take k (opens m n))\<rparr>)"
  by (simp add: caps_in_def list_all_take)

lemma rmatch_inv:
  "rmatch p s m = Some (m', rest) \<Longrightarrow> list_all inl s \<Longrightarrow> caps_in m \<Longrightarrow>
     caps_in m' \<and> list_all inl rest"
proof (induction p s m rule: rmatch.induct)
  case (1 s m)
  then show ?case by simp
next
  case (2 c p m)
  then show ?case by simp
next
  case (3 c p x xs m)
  then show ?case by (simp split: if_splits)
next
  case (4 nl p s m)
  then show ?case by (simp split: if_splits)
next
  case (5 n p s m)
  then show ?case by (simp add: caps_in_open)
next
  case (6 n p s m)
  then show ?case by (simp add: caps_in_close)
next
  case (7 q p s m)
  show ?case
  proof (cases "rmatch (q @ p) s m")
    case None
    with 7 show ?thesis by simp
  next
    case (Some a)
    with 7 show ?thesis by simp
  qed
next
  case (8 g lo hi P p m)
  then show ?case by (simp split: if_splits)
next
  case (9 lo hi P p x xs m)
  let ?rec = "if P x \<and> hi \<noteq> Some 0
              then rmatch (Rep True (lo - 1) (map_option (\<lambda>h. h - 1) hi) P # p) xs m else None"
  show ?case
  proof (cases ?rec)
    case None
    with "9.prems"(1) have lo: "lo = 0" and r: "rmatch p (x # xs) m = Some (m', rest)"
      by (simp_all split: if_splits)
    from "9.IH"(2) [OF None lo r "9.prems"(2,3)] show ?thesis .
  next
    case (Some a)
    with "9.prems"(1) have a: "a = (m', rest)" by simp
    from Some have c: "P x \<and> hi \<noteq> Some 0" by (simp split: if_splits)
    with Some a have r: "rmatch (Rep True (lo - 1) (map_option (\<lambda>h. h - 1) hi) P # p) xs m =
        Some (m', rest)" by simp
    from "9.prems"(2) have "list_all inl xs" by simp
    from "9.IH"(1) [OF c r this "9.prems"(3)] show ?thesis .
  qed
next
  case (10 lo hi P p x xs m)
  let ?fst = "if lo = 0 then rmatch p (x # xs) m else None"
  show ?case
  proof (cases ?fst)
    case None
    with "10.prems"(1) have c: "P x \<and> hi \<noteq> Some 0"
      and r: "rmatch (Rep False (lo - 1) (map_option (\<lambda>h. h - 1) hi) P # p) xs m = Some (m', rest)"
      by (simp_all split: if_splits)
    from "10.prems"(2) have "list_all inl xs" by simp
    from "10.IH"(2) [OF None c r this "10.prems"(3)] show ?thesis .
  next
    case (Some a)
    with "10.prems"(1) have a: "a = (m', rest)" by simp
    from Some have lo: "lo = 0" by (simp split: if_splits)
    with Some a have r: "rmatch p (x # xs) m = Some (m', rest)" by simp
    from "10.IH"(1) [OF lo r "10.prems"(2,3)] show ?thesis .
  qed
qed

lemma grp_inl: "caps_in m \<Longrightarrow> list_all inl (grp m n)"
  by (auto simp: caps_in_def grp_def split: option.splits)

lemma sub_agree:
  assumes eq: "\<And>s m. list_all inl s \<Longrightarrow> rmatch q s m = rmatch p s m"
  shows "list_all inl s \<Longrightarrow> sub q r s = sub p r s"
proof (induction "length s" arbitrary: s rule: less_induct)
  case less
  note s = \<open>list_all inl s\<close>
  show ?case
  proof (cases "rmatch p s m0")
    case None
    show ?thesis
    proof (cases s)
      case Nil
      with None eq [OF s, of m0] show ?thesis by (simp add: sub.simps)
    next
      case (Cons x xs)
      with s less.hyps [of xs] have "sub q r xs = sub p r xs" by simp
      with None eq [OF s, of m0] Cons show ?thesis
        by (subst sub.simps, subst (2) sub.simps) simp
    qed
  next
    case (Some a)
    obtain m rest where a: "a = (m, rest)" by (cases a)
    from rmatch_inv [OF Some [unfolded a] s caps_in_m0] have rest: "list_all inl rest" by simp
    show ?thesis
    proof (cases "length rest < length s")
      case True
      with less.hyps [of rest] rest have "sub q r rest = sub p r rest" by simp
      with Some a True eq [OF s, of m0] show ?thesis
        by (subst sub.simps, subst (2) sub.simps) simp
    next
      case False
      show ?thesis
      proof (cases s)
        case Nil
        with Some a False eq [OF s, of m0] show ?thesis
          by (subst sub.simps, subst (2) sub.simps) simp
      next
        case (Cons x xs)
        with s less.hyps [of xs] have "sub q r xs = sub p r xs" by simp
        with Some a False eq [OF s, of m0] Cons show ?thesis
          by (subst sub.simps, subst (2) sub.simps) simp
      qed
    qed
  qed
qed

lemma sub_inl:
  assumes repl: "\<And>m. caps_in m \<Longrightarrow> list_all inl (r m)"
  shows "list_all inl s \<Longrightarrow> list_all inl (sub p r s)"
proof (induction "length s" arbitrary: s rule: less_induct)
  case less
  note s = \<open>list_all inl s\<close>
  show ?case
  proof (cases "rmatch p s m0")
    case None
    show ?thesis
    proof (cases s)
      case Nil
      with None show ?thesis by (simp add: sub.simps)
    next
      case (Cons x xs)
      with s less.hyps [of xs] have "list_all inl (sub p r xs)" by simp
      with None Cons s show ?thesis
        by (subst sub.simps) simp
    qed
  next
    case (Some a)
    obtain m rest where a: "a = (m, rest)" by (cases a)
    from rmatch_inv [OF Some [unfolded a] s caps_in_m0]
    have rest: "list_all inl rest" and m: "caps_in m" by simp_all
    show ?thesis
    proof (cases "length rest < length s")
      case True
      with less.hyps [of rest] rest have "list_all inl (sub p r rest)" by simp
      with Some a True repl [OF m] show ?thesis
        by (subst sub.simps) simp
    next
      case False
      show ?thesis
      proof (cases s)
        case Nil
        with Some a False repl [OF m] show ?thesis
          by (subst sub.simps) simp
      next
        case (Cons x xs)
        with s less.hyps [of xs] have "list_all inl (sub p r xs)" by simp
        with Some a False Cons s repl [OF m] show ?thesis
          by (subst sub.simps) simp
      qed
    qed
  qed
qed

lemma repl_inl:
  assumes "caps_in m"
  shows "list_all inl (citation_repl m)" and "list_all inl (unsourced_repl m)"
    and "list_all inl (link_repl m)" and "list_all inl (bold_repl m)"
    and "list_all inl (code_repl m)"
  using grp_inl [OF assms]
  by (simp_all add: citation_repl_def unsourced_repl_def link_repl_def bold_repl_def
      code_repl_def inl_def common_def)

lemma inline_agree:
  assumes "list_all inl s"
  shows "inlineFmt s = inline_format s"
proof -
  let ?s1 = "sub (citation_rx py_space) citation_repl s"
  let ?s2 = "sub (unsourced_rx py_space) unsourced_repl ?s1"
  let ?s3 = "sub link_rx link_repl ?s2"
  have 1: "list_all inl ?s1" by (rule sub_inl [OF repl_inl(1) assms])
  have 2: "list_all inl ?s2" by (rule sub_inl [OF repl_inl(2) 1])
  have 3: "list_all inl ?s3" by (rule sub_inl [OF repl_inl(3) 2])
  have e1: "sub (citation_rx js_space) citation_repl s = ?s1"
    by (rule sub_agree [OF rmatch_agree(1) assms])
  have e2: "sub (unsourced_rx js_space) unsourced_repl ?s1 = ?s2"
    by (rule sub_agree [OF rmatch_agree(2) 1])
  have e4: "sub (bold_rx js_dot) bold_repl ?s3 = sub (bold_rx py_dot) bold_repl ?s3"
    by (rule sub_agree [OF rmatch_agree(3) 3])
  show ?thesis
    by (simp add: inlineFmt_def inline_format_def Let_def e1 e2 e4)
qed

lemma inl_common: "inl c \<Longrightarrow> common c"
  by (simp add: inl_def)

lemma strip_inl: "list_all inl s \<Longrightarrow> list_all inl (strip_with sp s)"
  by (auto simp: strip_with_def list_all_iff dest!: set_dropWhileD)

lemma strip_agree:
  assumes "list_all inl s"
  shows "strip_with js_space s = strip_with py_space s"
proof -
  have 1: "dropWhile js_space s = dropWhile py_space s"
    using assms by (intro dropWhile_cong) (auto simp: list_all_iff inl_space_eq)
  have "list_all inl (rev (dropWhile py_space s))"
    using assms by (auto simp: list_all_iff dest!: set_dropWhileD)
  then have "dropWhile js_space (rev (dropWhile py_space s)) =
             dropWhile py_space (rev (dropWhile py_space s))"
    by (intro dropWhile_cong) (auto simp: list_all_iff inl_space_eq)
  with 1 show ?thesis by (simp add: strip_with_def)
qed

lemma split_on_set: "x \<in> set (split_on c s) \<Longrightarrow> set x \<subseteq> set s"
proof (induction s arbitrary: x)
  case Nil
  then show ?case by simp
next
  case (Cons a s)
  show ?case
  proof (cases "a = c")
    case True
    with Cons show ?thesis by auto
  next
    case False
    show ?thesis
    proof (cases "split_on c s")
      case Nil
      with Cons.prems False show ?thesis by simp
    next
      case (Cons y ys)
      with Cons.prems False have "x = a # y \<or> x \<in> set ys" by simp
      with Cons Cons.IH [of y] Cons.IH [of x] show ?thesis by auto
    qed
  qed
qed

lemma split_on_sep: "x \<in> set (split_on c s) \<Longrightarrow> c \<notin> set x"
proof (induction s arbitrary: x)
  case Nil
  then show ?case by simp
next
  case (Cons a s)
  show ?case
  proof (cases "a = c")
    case True
    with Cons show ?thesis by auto
  next
    case False
    show ?thesis
    proof (cases "split_on c s")
      case Nil
      with Cons.prems False show ?thesis by simp
    next
      case (Cons y ys)
      with Cons.prems False have "x = a # y \<or> x \<in> set ys" by simp
      with Cons Cons.IH [of y] Cons.IH [of x] False show ?thesis by auto
    qed
  qed
qed

lemma line_agree:
  assumes l: "list_all inl l"
  shows "mdLine st l = md_line st l"
proof -
  define s where "s = strip_with py_space l"
  have js: "strip_with js_space l = s"
    by (simp add: s_def strip_agree [OF l])
  have py: "strip_with py_space l = s"
    by (simp add: s_def)
  have s: "list_all inl s"
    by (simp add: s_def strip_inl [OF l])
  define raw where "raw = butlast (tl (split_on (CHR ''|'') s))"
  have raw: "list_all inl c" if "c \<in> set raw" for c
  proof -
    from that have "c \<in> set (split_on (CHR ''|'') s)"
      by (cases "split_on (CHR ''|'') s") (auto simp: raw_def dest: in_set_butlastD)
    from split_on_set [OF this] s show ?thesis
      by (auto simp: list_all_iff)
  qed
  define cells where "cells = map (strip_with py_space) raw"
  have cjs: "map (strip_with js_space) raw = cells"
    unfolding cells_def by (rule map_cong) (simp_all add: strip_agree raw)
  have cinl: "list_all inl c" if "c \<in> set cells" for c
    using that by (auto simp: cells_def strip_inl raw)
  have sep: "list_all (\<lambda>c. rmatch (sep_rx False) c m0 \<noteq> None) cells =
             list_all (\<lambda>c. rmatch (sep_rx True) c m0 \<noteq> None) cells"
    by (rule list.pred_cong) (simp_all add: rmatch_agree cinl)
  have th: "map (\<lambda>c. ''<th>'' @ inlineFmt c @ ''</th>'') cells =
            map (\<lambda>c. ''<th>'' @ inline_format c @ ''</th>'') cells"
    by (rule map_cong) (simp_all add: inline_agree cinl)
  have td: "map (\<lambda>c. ''<td>'' @ inlineFmt c @ ''</td>'') cells =
            map (\<lambda>c. ''<td>'' @ inline_format c @ ''</td>'') cells"
    by (rule map_cong) (simp_all add: inline_agree cinl)
  have g: "inlineFmt (grp m n) = inline_format (grp m n)" if "rmatch p s m0 = Some (m, r)" for p m r n
    using rmatch_inv [OF that s caps_in_m0] by (simp add: inline_agree grp_inl)
  have whole: "inlineFmt s = inline_format s"
    by (rule inline_agree [OF s])
  note ag = rmatch_agree(5-7) [OF s, of m0]
  show ?thesis
  proof (cases "rmatch (header_rx py_space py_dot True) s m0")
    case (Some a)
    obtain m r where a: "a = (m, r)" by (cases a)
    show ?thesis
      unfolding mdLine_def md_line_def Let_def js py raw_def [symmetric] cjs
        cells_def [symmetric] sep th td ag
      by (simp add: Some a g [OF Some [unfolded a]])
  next
    case hNone: None
    show ?thesis
    proof (cases "rmatch (bullet_rx py_space py_dot True) s m0")
      case (Some a)
      obtain m r where a: "a = (m, r)" by (cases a)
      show ?thesis
        unfolding mdLine_def md_line_def Let_def js py raw_def [symmetric] cjs
          cells_def [symmetric] sep th td ag
        by (simp add: hNone Some a g [OF Some [unfolded a]])
    next
      case bNone: None
      show ?thesis
      proof (cases "rmatch (numbered_rx py_space py_dot True) s m0")
        case (Some a)
        obtain m r where a: "a = (m, r)" by (cases a)
        show ?thesis
          unfolding mdLine_def md_line_def Let_def js py raw_def [symmetric] cjs
            cells_def [symmetric] sep th td ag
          by (simp add: hNone bNone Some a g [OF Some [unfolded a]])
      next
        case None
        show ?thesis
          unfolding mdLine_def md_line_def Let_def js py raw_def [symmetric] cjs
            cells_def [symmetric] sep th td ag
          by (simp add: hNone bNone None whole)
      qed
    qed
  qed
qed

lemma lines_agree:
  "list_all (list_all inl) ls \<Longrightarrow> foldl mdLine st ls = foldl md_line st ls"
  by (induction ls arbitrary: st) (simp_all add: line_agree)

section \<open>The claims\<close>

subsection \<open>C1: the two block renderers\<close>

text \<open>
  C1 says that for every content string the Python renderer \<^verbatim>\<open>md_to_html\<close> and the
  script's renderer \<^verbatim>\<open>mdToHtml\<close> produce the same sequence of tags. The two differ on
  a header line with a carriage return inside its text: in Python \<^verbatim>\<open>.\<close> matches the
  carriage return, the header expression matches the line and a heading of level 3 comes
  out; in the script \<^verbatim>\<open>.\<close> does not match it, no expression matches the line and a
  paragraph comes out.
\<close>

theorem carriage_return_header:
  \<open>md_to_html (''# a'' @ [CHR 0x0D] @ ''b'') = ''<h3>a'' @ [CHR 0x0D] @ ''b</h3>'' \<and>
   mdToHtml (''# a'' @ [CHR 0x0D] @ ''b'') = ''<p># a'' @ [CHR 0x0D] @ ''b</p>''\<close>
  by (simp add: md_defs rx_defs repl_defs sub.simps str_nat.simps)

text \<open>
  Away from the six characters on which the engines differ the two renderers do agree:
  for every content string without a carriage return and without the characters 28 to 31
  and 133 the script renders what Python renders.
\<close>

theorem renderers_agree_on_common_text:
  assumes "list_all common text"
  shows "mdToHtml text = md_to_html text"
proof (cases "text = []")
  case True
  then show ?thesis
    by (simp add: mdToHtml_def md_to_html_def md_line_def strip_with_def)
next
  case False
  have "list_all (list_all inl) (split_on (CHR 0x0A) text)"
    unfolding list_all_iff
  proof (intro ballI)
    fix l c assume l: "l \<in> set (split_on (CHR 0x0A) text)" and c: "c \<in> set l"
    from split_on_set [OF l] c assms have "common c" by (auto simp: list_all_iff)
    moreover from split_on_sep [OF l] c have "c \<noteq> CHR 0x0A" by auto
    ultimately show "inl c" by (simp add: inl_def)
  qed
  then show ?thesis
    using False by (simp add: mdToHtml_def md_to_html_def lines_agree)
qed

text \<open>
  A text that mixes a header, a bullet and a numbered item, a table, a citation, an
  unsourced marker, bold and code.
\<close>

theorem renderers_agree_on_common_text_witness:
  \<open>mdToHtml (''## Title'' @ [CHR 0x0A] @ ''- one **b**'' @ [CHR 0x0A] @ ''2) two `c`'' @ [CHR 0x0A, CHR 0x0A]
      @ ''| A | B |'' @ [CHR 0x0A] @ ''| --- | --- |'' @ [CHR 0x0A] @ ''| 1 | 2 |'' @ [CHR 0x0A]
      @ ''see [Source: "X", Y](http://a) and [Unsourced -- note]'') =
   md_to_html (''## Title'' @ [CHR 0x0A] @ ''- one **b**'' @ [CHR 0x0A] @ ''2) two `c`'' @ [CHR 0x0A, CHR 0x0A]
      @ ''| A | B |'' @ [CHR 0x0A] @ ''| --- | --- |'' @ [CHR 0x0A] @ ''| 1 | 2 |'' @ [CHR 0x0A]
      @ ''see [Source: "X", Y](http://a) and [Unsourced -- note]'')\<close>
  by (rule renderers_agree_on_common_text) (simp add: common_def)

subsection \<open>C2: the version counts the saves\<close>

text \<open>
  C2: every save increments the version by exactly 1; a sequence of \<open>N\<close> saving
  invocations that do not initialize takes the version from \<open>V0\<close> to \<open>V0 + N\<close>; and
  an invocation that initializes resets the version to 0 and saves it as 1.
\<close>

theorem version_counts_saves:
  "version (fst (save_state st w)) = version st + 1 \<and>
   (list_all plain_save ops \<longrightarrow>
      version (load_state (run ops w)) = version (load_state w) + int (length ops)) \<and>
   (\<not> a_serve a \<and> \<not> a_stop_server a \<and> truthy (a_init a) \<longrightarrow>
      version (init_branch a (load_state w)) = 0 \<and> version (load_state (main a w)) = 1)"
  by (simp add: save_state_def Let_def version_run version_main version_init_branch)

text \<open>Two saving invocations from the empty world, and an initialization.\<close>

theorem version_counts_saves_witness:
  "list_all plain_save [no_args\<lparr>a_add := True\<rparr>, no_args] \<and>
   version (load_state (run [no_args\<lparr>a_add := True\<rparr>, no_args] w0)) = version (load_state w0) + 2 \<and>
   (\<not> a_serve (no_args\<lparr>a_init := Some ''T''\<rparr>) \<and> \<not> a_stop_server (no_args\<lparr>a_init := Some ''T''\<rparr>) \<and>
    truthy (a_init (no_args\<lparr>a_init := Some ''T''\<rparr>))) \<and>
   version (load_state (main (no_args\<lparr>a_init := Some ''T''\<rparr>) w0)) = 1"
proof -
  have h1: "list_all plain_save [no_args\<lparr>a_add := True\<rparr>, no_args]"
    by (simp add: plain_save_def no_args_def truthy_def)
  have h2: "\<not> a_serve (no_args\<lparr>a_init := Some ''T''\<rparr>) \<and> \<not> a_stop_server (no_args\<lparr>a_init := Some ''T''\<rparr>) \<and>
    truthy (a_init (no_args\<lparr>a_init := Some ''T''\<rparr>))"
    by (simp add: no_args_def truthy_def)
  from version_counts_saves [of st w0 "[no_args\<lparr>a_add := True\<rparr>, no_args]" "no_args\<lparr>a_init := Some ''T''\<rparr>"]
    h1 h2
  show ?thesis by simp
qed

subsection \<open>C3: initialize, then load\<close>

text \<open>
  C3, for a non-empty topic: an invocation with \<^verbatim>\<open>--init T\<close> that does not add an
  entry and sets no status leaves a document whose topic is \<open>T\<close>, whose status is
  \<^verbatim>\<open>in_progress\<close>, whose entries are empty, and whose version was reset to 0 and saved
  as 1.
\<close>

theorem init_round_trip:
  assumes "a_init a = Some T" and "T \<noteq> []"
    and "\<not> a_serve a" and "\<not> a_stop_server a" and "\<not> a_add a" and "\<not> truthy (a_status a)"
  shows "topic (load_state (main a w)) = T \<and>
         status (load_state (main a w)) = ''in_progress'' \<and>
         entries (load_state (main a w)) = [] \<and>
         version (init_branch a (load_state w)) = 0 \<and>
         version (load_state (main a w)) = 1"
  using assms
  by (simp add: load_state_main Let_def init_branch_def add_branch_def status_branch_def
      thinking_branch_def set_round_branch_def truthy_def split: option.splits)

text \<open>
  An initialization over a completed document with one entry; and the same invocation
  with the empty topic, which \<^verbatim>\<open>if args.init:\<close> takes for no initialization: the
  document keeps its topic, status and entries, and its version goes from 5 to 6.
\<close>

theorem init_round_trip_witness:
  "topic (load_state (main (no_args\<lparr>a_init := Some ''T''\<rparr>) w1)) = ''T'' \<and>
   status (load_state (main (no_args\<lparr>a_init := Some ''T''\<rparr>) w1)) = ''in_progress'' \<and>
   entries (load_state (main (no_args\<lparr>a_init := Some ''T''\<rparr>) w1)) = [] \<and>
   version (init_branch (no_args\<lparr>a_init := Some ''T''\<rparr>) (load_state w1)) = 0 \<and>
   version (load_state (main (no_args\<lparr>a_init := Some ''T''\<rparr>) w1)) = 1"
  by (rule init_round_trip [of _ "''T''"]) (simp_all add: no_args_def truthy_def)

theorem init_empty_topic_counterexample:
  "topic (load_state (main (no_args\<lparr>a_init := Some []\<rparr>) w1)) \<noteq> [] \<and>
   topic (load_state (main (no_args\<lparr>a_init := Some []\<rparr>) w1)) = ''old'' \<and>
   status (load_state (main (no_args\<lparr>a_init := Some []\<rparr>) w1)) = ''completed'' \<and>
   entries (load_state (main (no_args\<lparr>a_init := Some []\<rparr>) w1)) = [e0] \<and>
   version (load_state (main (no_args\<lparr>a_init := Some []\<rparr>) w1)) = 6"
  by (simp add: main_def save_state_def Let_def init_branch_def add_branch_def status_branch_def
      thinking_branch_def set_round_branch_def no_args_def w1_def w0_def load_state_def)

subsection \<open>C4: the divider of round 0\<close>

text \<open>
  C4 says that an entry of round 0 is rendered under a divider labelled
  \<^verbatim>\<open>Final Synthesis\<close> on the server and in the script. For a document with one entry
  of round 0, \<^verbatim>\<open>build_html\<close> renders that divider; \<^verbatim>\<open>applyUpdate\<close>, given the same
  entry as a new one on a page that was built without it, renders the divider
  \<^verbatim>\<open>Round 1\<close>, because \<^verbatim>\<open>entry.round || 1\<close> is 1 for round 0.
\<close>

theorem round_zero_divider:
  "concat (map divider_label (pg_feed (build_html (s0\<lparr>entries := [e0]\<rparr>)))) = [''Final Synthesis''] \<and>
   concat (map divider_label (feed (applyUpdate (s0\<lparr>entries := [e0], version := 6\<rparr>)
      (page_load (build_html s0))))) = [''Round 1'']"
  by (simp add: page_defs e0_def s0_def str_int_def str_nat.simps digit_char_def)

text \<open>
  Whatever the entry and whatever was rendered before, \<^verbatim>\<open>applyUpdate\<close> never adds a
  divider labelled \<^verbatim>\<open>Final Synthesis\<close> for it: the dividers with that label after an
  entry was appended are those that were there before.
\<close>

theorem append_entry_never_final_synthesis:
  "filter (\<lambda>l. l = ''Final Synthesis'') (concat (map divider_label (fst (append_entry acc e)))) =
   filter (\<lambda>l. l = ''Final Synthesis'') (concat (map divider_label (fst acc)))"
  by (simp add: append_entry_def Let_def renderRoundDivider_def renderBubble_def)

subsection \<open>C5: the citation comes before the generic link\<close>




subsection \<open>C6: the table of three rows\<close>

text \<open>
  C6: the three lines \<^verbatim>\<open>| A | B |\<close>, \<^verbatim>\<open>| --- | --- |\<close>, \<^verbatim>\<open>| 1 | 2 |\<close> render as one
  table whose header row has the cells A and B and whose body has the one row with the
  cells 1 and 2; and the separator row leaves every state of the renderer as it is, so it
  produces no output.
\<close>

theorem table_three_rows:
  \<open>md_to_html (''| A | B |'' @ [CHR 0x0A] @ ''| --- | --- |'' @ [CHR 0x0A] @ ''| 1 | 2 |'') =
     join_with [CHR 0x0A]
       [''<table class="debate-table"><thead><tr>'', ''<th>A</th>'', ''<th>B</th>'',
        ''</tr></thead><tbody>'', ''<tr>'', ''<td>1</td>'', ''<td>2</td>'', ''</tr>'',
        ''</tbody></table>''] \<and>
   md_line st ''| --- | --- |'' = st\<close>
  by (simp add: md_defs rx_defs repl_defs sub.simps)

subsection \<open>C7: loading without a document\<close>

text \<open>
  C7: loading when the persisted document does not exist raises nothing and returns the
  fresh-state defaults: empty topic, status \<^verbatim>\<open>in_progress\<close>, no thinking agent,
  current round 1, three rounds in total, version 0 and no entries.
\<close>

theorem load_state_missing_file:
  "state_file w = None \<Longrightarrow>
     load_state w = \<lparr>topic = [], status = ''in_progress'', thinking = None,
                     current_round = 1, total_rounds = 3, version = 0, entries = []\<rparr>"
  by (simp add: load_state_def)

theorem load_state_missing_file_witness:
  "state_file w0 = None \<and>
   load_state w0 = \<lparr>topic = [], status = ''in_progress'', thinking = None,
                    current_round = 1, total_rounds = 3, version = 0, entries = []\<rparr>"
proof -
  have h: "state_file w0 = None"
    by (simp add: w0_def)
  from load_state_missing_file [OF h] h show ?thesis
    by simp
qed

subsection \<open>C8: adding with a content file that does not exist\<close>

text \<open>
  C8, with the inline content: an invocation with \<^verbatim>\<open>--add\<close> whose content file does
  not exist does not fail; it appends one entry whose content is the inline
  \<^verbatim>\<open>--content\<close> argument when one is given and the empty string otherwise, and whose
  round, agent, type and timestamp are recorded as for any other entry.
\<close>

theorem add_missing_content_file:
  assumes "a_add a" and "\<not> a_serve a" and "\<not> a_stop_server a"
    and "a_content_file a = Some p" and "files w p = None"
  shows "entries (load_state (main a w)) =
           entries (init_branch a (load_state w)) @
           [\<lparr>e_round = (case a_round a of
                          Some r \<Rightarrow> if r \<noteq> 0 then r else current_round (init_branch a (load_state w))
                        | None \<Rightarrow> current_round (init_branch a (load_state w))),
             e_agent = (case a_agent a of
                          Some g \<Rightarrow> if g \<noteq> [] then g else ''unknown''
                        | None \<Rightarrow> ''unknown''),
             e_content = (case a_content a of Some c \<Rightarrow> c | None \<Rightarrow> []),
             e_type = a_type a,
             e_timestamp = clock w\<rparr>]"
  using assms
  by (simp add: load_state_main Let_def add_branch_def add_content_def status_branch_def
      thinking_branch_def set_round_branch_def split: option.splits)

theorem add_missing_content_file_witness:
  "entries (load_state (main (no_args\<lparr>a_add := True, a_agent := Some ''critic'', a_round := Some 2,
       a_content_file := Some ''turn.md''\<rparr>) w0)) =
     [\<lparr>e_round = 2, e_agent = ''critic'', e_content = [], e_type = ''turn'', e_timestamp = ''09:30''\<rparr>]"
proof -
  let ?a = "no_args\<lparr>a_add := True, a_agent := Some ''critic'', a_round := Some 2,
       a_content_file := Some ''turn.md''\<rparr>"
  have "a_add ?a" "\<not> a_serve ?a" "\<not> a_stop_server ?a" "a_content_file ?a = Some ''turn.md''"
    "files w0 ''turn.md'' = None"
    by (simp_all add: no_args_def w0_def)
  from add_missing_content_file [OF this] show ?thesis
    by (simp add: no_args_def w0_def init_branch_def load_state_def)
qed

theorem add_missing_content_file_counterexample:
  "files w0 ''turn.md'' = None \<and>
   map e_content (entries (load_state (main (no_args\<lparr>a_add := True, a_content_file := Some ''turn.md'',
       a_content := Some ''hi''\<rparr>) w0))) = [''hi''] \<and>
   map e_content (entries (load_state (main (no_args\<lparr>a_add := True, a_content_file := Some ''turn.md'',
       a_content := Some ''hi''\<rparr>) w0))) \<noteq> [[]]"
  by (simp add: main_def save_state_def Let_def init_branch_def add_branch_def add_content_def
      status_branch_def thinking_branch_def set_round_branch_def no_args_def w0_def load_state_def)

subsection \<open>C9: adding with round 0\<close>

text \<open>
  C9: an invocation with \<^verbatim>\<open>--add\<close> and \<^verbatim>\<open>--round 0\<close> stores an entry whose round is
  the current round of the document at that point (1 after an initialization in the same
  invocation); it stores the same entries as the invocation without \<^verbatim>\<open>--round\<close>; and
  when the current round of the document is not 0, the round of the stored entry is not 0.
\<close>

theorem add_round_zero:
  assumes "a_add a" and "\<not> a_serve a" and "\<not> a_stop_server a" and "a_round a = Some 0"
  shows "e_round (last (entries (load_state (main a w)))) =
           (if truthy (a_init a) then 1 else current_round (load_state w)) \<and>
         entries (load_state (main a w)) = entries (load_state (main (a\<lparr>a_round := None\<rparr>) w)) \<and>
         (current_round (load_state w) \<noteq> 0 \<longrightarrow>
            e_round (last (entries (load_state (main a w)))) \<noteq> 0)"
  using assms
  by (simp add: load_state_main Let_def init_branch_def add_branch_def add_content_def
      status_branch_def thinking_branch_def set_round_branch_def truthy_def split: option.splits)

theorem add_round_zero_witness:
  "e_round (last (entries (load_state (main (no_args\<lparr>a_add := True, a_round := Some 0\<rparr>) w1)))) = 2 \<and>
   current_round (load_state w1) = 2"
proof -
  let ?a = "no_args\<lparr>a_add := True, a_round := Some 0\<rparr>"
  have h: "a_add ?a" "\<not> a_serve ?a" "\<not> a_stop_server ?a" "a_round ?a = Some 0"
    by (simp_all add: no_args_def)
  have t: "\<not> truthy (a_init ?a)" "current_round (load_state w1) = 2"
    by (simp_all add: no_args_def truthy_def w1_def w0_def load_state_def)
  from add_round_zero [OF h, of w1]
  have "e_round (last (entries (load_state (main ?a w1)))) =
          (if truthy (a_init ?a) then 1 else current_round (load_state w1))"
    by (rule conjunct1)
  with t show ?thesis
    by simp
qed

subsection \<open>C10: every other invocation saves and renders\<close>

text \<open>
  C10: every invocation other than \<^verbatim>\<open>--serve\<close> and \<^verbatim>\<open>--stop-server\<close> writes the
  document, with the version one above that of the document in memory, and writes the page
  built from the document it wrote; the invocation without any option writes the loaded
  document with nothing but its version changed.
\<close>

theorem main_always_saves:
  assumes "\<not> a_serve a" and "\<not> a_stop_server a"
  shows "(\<exists>st. state_file (main a w) = Some st \<and>
               html_file (main a w) = Some (build_html st) \<and>
               version st = version (init_branch a (load_state w)) + 1) \<and>
         state_file (main no_args w) = Some ((load_state w)\<lparr>version := version (load_state w) + 1\<rparr>) \<and>
         html_file (main no_args w) =
           Some (build_html ((load_state w)\<lparr>version := version (load_state w) + 1\<rparr>))"
proof -
  have "state_file (main no_args w) = Some ((load_state w)\<lparr>version := version (load_state w) + 1\<rparr>) \<and>
        html_file (main no_args w) =
           Some (build_html ((load_state w)\<lparr>version := version (load_state w) + 1\<rparr>))"
    by (simp add: main_def no_args_def save_state_def Let_def init_branch_def add_branch_def
        status_branch_def thinking_branch_def set_round_branch_def)
  moreover have "\<exists>st. state_file (main a w) = Some st \<and>
               html_file (main a w) = Some (build_html st) \<and>
               version st = version (init_branch a (load_state w)) + 1"
    using assms by (simp add: main_saving Let_def version_branches)
  ultimately show ?thesis by blast
qed

theorem main_always_saves_witness:
  "state_file (main no_args w0) = Some ((load_state w0)\<lparr>version := 1\<rparr>) \<and>
   html_file (main no_args w0) = Some (build_html ((load_state w0)\<lparr>version := 1\<rparr>))"
proof -
  have h: "\<not> a_serve no_args" "\<not> a_stop_server no_args"
    by (simp_all add: no_args_def)
  have v: "version (load_state w0) = 0"
    by (simp add: load_state_def w0_def)
  from main_always_saves [OF h, of w0] v show ?thesis
    by simp
qed

end
